theory Spec2Isabelle
  imports Main "HOL-Library.Sublist" "HOL-Library.Char_ord" "HOL-Library.List_Lexorder"
begin

section \<open>Python strings\<close>

text \<open>
  A Python \<open>str\<close> is a sequence of code points. It is modelled as a \<open>string\<close> whose
  characters are read as the code points below 256; the source's literals are all in
  that range except the check marks of two console messages, which are modelled as
  events (see \<open>console\<close> below).
\<close>

definition NL :: char where
  "NL = CHR 0x0A"

definition QUOTE :: char where
  "QUOTE = CHR 0x27"

text \<open>
  \<open>str.isspace\<close> of one code point, which is also what \<open>\s\<close> matches in a \<open>str\<close>
  pattern: tab, line feed, vertical tab, form feed, carriage return, the four
  separators U+001C..U+001F, space, U+0085 and U+00A0.
\<close>

definition is_space :: "char \<Rightarrow> bool" where
  "is_space c = (c \<in> set [CHR 0x09, CHR 0x0A, CHR 0x0B, CHR 0x0C, CHR 0x0D,
                            CHR 0x1C, CHR 0x1D, CHR 0x1E, CHR 0x1F, CHR 0x20,
                            CHR 0x85, CHR 0xA0])"

text \<open>What \<open>\d\<close> matches: the decimal digits; below 256 these are \<open>0\<close> to \<open>9\<close>.\<close>

definition is_digit :: "char \<Rightarrow> bool" where
  "is_digit c = (c \<in> set ''0123456789'')"

text \<open>\<open>s.strip()\<close>: leading and trailing whitespace removed.\<close>

definition strip :: "string \<Rightarrow> string" where
  "strip s = rev (dropWhile is_space (rev (dropWhile is_space s)))"

text \<open>
  \<open>s.replace(old, new)\<close>: every non-overlapping occurrence of \<open>old\<close>, found from left
  to right, is replaced; the scan goes on after the occurrence, never inside the
  replacement. With an empty \<open>old\<close>, Python puts \<open>new\<close> before every character and at
  the end.
\<close>

function replace :: "string \<Rightarrow> string \<Rightarrow> string \<Rightarrow> string" where
  "replace old new [] = (if old = [] then new else [])"
| "replace old new (c # cs) =
     (if old = [] then new @ c # replace old new cs
      else if prefix old (c # cs) then new @ replace old new (drop (length old - 1) cs)
      else c # replace old new cs)"
  by pat_completeness auto
termination
  by (relation "measure (\<lambda>(old, new, s). length s)") auto

section \<open>Splitting the completion text into themes\<close>

text \<open>
  The pattern \<open>\*\*\d+\.\s*\<close> at the start of a string: two asterisks, one or more
  digits, a dot, then all the whitespace that follows. \<open>match_marker s\<close> is the text after
  the match, or \<open>None\<close> when the pattern does not match at the start of \<open>s\<close>. Both
  repetitions are greedy and what follows them cannot match a character they take, so
  no backtracking changes the result.
\<close>

definition match_marker :: "string \<Rightarrow> string option" where
  "match_marker s =
     (case s of
        a # b # r \<Rightarrow>
          if a = CHR ''*'' \<and> b = CHR ''*'' \<and> takeWhile is_digit r \<noteq> [] then
            (case dropWhile is_digit r of
               d # r' \<Rightarrow> if d = CHR ''.'' then Some (dropWhile is_space r') else None
             | [] \<Rightarrow> None)
          else None
      | _ \<Rightarrow> None)"

lemma match_marker_shorter: "match_marker s = Some r \<Longrightarrow> length r < length s"
proof -
  assume m: "match_marker s = Some r"
  then obtain a b t where s: "s = a # b # t"
    by (cases s rule: list.exhaust; simp add: match_marker_def split: list.splits)
  from m s obtain d t' where t': "dropWhile is_digit t = d # t'" and r: "r = dropWhile is_space t'"
    by (auto simp: match_marker_def split: if_splits list.splits)
  have "length t' < length t"
    using length_dropWhile_le [of is_digit t] t' by simp
  moreover have "length r \<le> length t'"
    using r length_dropWhile_le [of is_space t'] by simp
  ultimately show ?thesis using s by simp
qed

text \<open>
  \<open>re.split(pattern, s)\<close> for this pattern, which never matches the empty string: the
  text is scanned from the left, the leftmost match ends the current piece, and the scan
  goes on after the match. \<open>acc\<close> is the current piece, reversed.
\<close>

function re_split_marker :: "string \<Rightarrow> string \<Rightarrow> string list" where
  "re_split_marker acc [] = [rev acc]"
| "re_split_marker acc (c # cs) =
     (case match_marker (c # cs) of
        Some rest \<Rightarrow> rev acc # re_split_marker [] rest
      | None \<Rightarrow> re_split_marker (c # acc) cs)"
  by pat_completeness auto
termination
  by (relation "measure (\<lambda>(acc, s). length s)") (auto dest: match_marker_shorter)

text \<open>
  Lines 254 to 260 of \<open>event_planning_nemo.py\<close> (and 474 to 480, the same text):
  \<^verbatim>\<open>
  raw_response = content.strip()
  themes = re.split(r"\*\*\d+\.\s*", raw_response)
  if themes and not themes[0].strip():
      themes.pop(0)
  cleaned_themes = [theme.replace("\n\n", "\n").strip() for theme in themes if theme]
  \<close>
\<close>

definition clean_theme :: "string \<Rightarrow> string" where
  "clean_theme theme = strip (replace [NL, NL] [NL] theme)"

definition pop_empty_head :: "string list \<Rightarrow> string list" where
  "pop_empty_head themes =
     (case themes of
        [] \<Rightarrow> []
      | t # ts \<Rightarrow> if strip t = [] then ts else t # ts)"

definition parse_themes :: "string \<Rightarrow> string list" where
  "parse_themes content =
     (let raw_response = strip content;
          themes = pop_empty_head (re_split_marker [] raw_response)
      in map clean_theme (filter (\<lambda>theme. theme \<noteq> []) themes))"

section \<open>Exceptions and dictionaries\<close>

text \<open>
  The exceptions the modelled code can meet. \<open>OperationalError\<close> and \<open>IntegrityError\<close>
  are the two subclasses of \<open>sqlite3.Error\<close> that occur; \<open>Raised\<close> is any other
  exception that the completion call raises (a transport error, a time-out, a bad status),
  with the text that \<open>str(e)\<close> gives.
\<close>

datatype py_exception =
    ValueError string
  | KeyError string
  | OverflowError string
  | OperationalError string
  | IntegrityError string
  | Raised string

text \<open>
  \<open>str(e)\<close>. A \<open>KeyError\<close> prints the \<open>repr\<close> of its key, which for the keys used
  here (no quote, no backslash) is the key between single quotes.
\<close>

fun exc_str :: "py_exception \<Rightarrow> string" where
  "exc_str (ValueError m) = m"
| "exc_str (KeyError k) = QUOTE # k @ [QUOTE]"
| "exc_str (OverflowError m) = m"
| "exc_str (OperationalError m) = m"
| "exc_str (IntegrityError m) = m"
| "exc_str (Raised m) = m"

fun is_sqlite_error :: "py_exception \<Rightarrow> bool" where
  "is_sqlite_error (OperationalError m) = True"
| "is_sqlite_error (IntegrityError m) = True"
| "is_sqlite_error e = False"

text \<open>
  A \<open>dict\<close> with string keys is an association list. \<open>d[k]\<close> raises \<open>KeyError\<close> on a
  missing key; \<open>d.get(k)\<close> gives \<open>None\<close> there, which is also what it gives when the
  key is present with the value \<open>None\<close>; \<open>d.get(k, default)\<close> gives the default.
\<close>

definition dict_getitem :: "(string \<times> 'v) list \<Rightarrow> string \<Rightarrow> py_exception + 'v" where
  "dict_getitem d k = (case map_of d k of None \<Rightarrow> Inl (KeyError k) | Some v \<Rightarrow> Inr v)"

definition dict_get :: "(string \<times> 'v option) list \<Rightarrow> string \<Rightarrow> 'v option" where
  "dict_get d k = (case map_of d k of None \<Rightarrow> None | Some v \<Rightarrow> v)"

definition dict_get_default :: "(string \<times> 'v) list \<Rightarrow> string \<Rightarrow> 'v \<Rightarrow> 'v" where
  "dict_get_default d k dflt = (case map_of d k of None \<Rightarrow> dflt | Some v \<Rightarrow> v)"

type_synonym str_dict = "(string \<times> string) list"

text \<open>\<open>sep.join(xs)\<close>.\<close>

fun join :: "string \<Rightarrow> string list \<Rightarrow> string" where
  "join sep [] = []"
| "join sep [x] = x"
| "join sep (x # y # ys) = x @ sep @ join sep (y # ys)"

section \<open>The completion service\<close>

text \<open>
  \<open>Settings\<close> (lines 26 to 34) holds the endpoint, the key, the model name and the path
  of the store, read once from the environment.
\<close>

record settings =
  nim_base_url :: string
  nim_api_key :: string
  model_name :: string
  db_path :: string

text \<open>
  The answer of \<open>litellm.completion\<close>, in the shape the interface gives it: \<open>None\<close>, an
  object that is not a \<open>dict\<close>, or a \<open>dict\<close> whose \<open>choices\<close> entry, when present, is
  \<open>None\<close> or a list of choices; a choice is a \<open>dict\<close> whose \<open>message\<close> entry is \<open>None\<close>
  or a \<open>dict\<close>; a message is a \<open>dict\<close> whose \<open>content\<close> entry is \<open>None\<close> or a string.
  The call itself is outside the repository: it is a parameter of the model, a function
  from the settings and the prompt to an exception or a response.
\<close>

type_synonym message = "(string \<times> string option) list"

type_synonym choice = "(string \<times> message option) list"

datatype response =
    RNone
  | RObject
  | RDict "(string \<times> choice list option) list"

type_synonym completion = "settings \<Rightarrow> string \<Rightarrow> py_exception + response"

text \<open>
  The extraction that follows each of the four completion calls (lines 239 to 252, 337
  to 350, 459 to 472 and 529 to 542, the same text each time):
  \<^verbatim>\<open>
  if response is None:
      raise ValueError("LLM returned None response")
  choices = response["choices"] if isinstance(response, dict) else None
  if not choices or len(choices) == 0:
      raise ValueError("LLM response has no choices")
  message = choices[0].get("message")
  if not message:
      raise ValueError("LLM response has no message")
  content = message.get("content")
  if not content:
      raise ValueError("LLM response has no content")
  \<close>
  The argument is the outcome of the call, so that an exception of the call passes
  through as the exception of the \<open>try\<close> body.
\<close>

definition extract_content :: "py_exception + response \<Rightarrow> py_exception + string" where
  "extract_content outcome =
     (case outcome of
        Inl e \<Rightarrow> Inl e
      | Inr response \<Rightarrow>
          if response = RNone then Inl (ValueError ''LLM returned None response'')
          else
            (case (case response of
                     RDict d \<Rightarrow> dict_getitem d ''choices''
                   | _ \<Rightarrow> Inr None) of
               Inl e \<Rightarrow> Inl e
             | Inr choices \<Rightarrow>
                 (case choices of
                    None \<Rightarrow> Inl (ValueError ''LLM response has no choices'')
                  | Some [] \<Rightarrow> Inl (ValueError ''LLM response has no choices'')
                  | Some (first_choice # _) \<Rightarrow>
                      (case dict_get first_choice ''message'' of
                         None \<Rightarrow> Inl (ValueError ''LLM response has no message'')
                       | Some message \<Rightarrow>
                           if message = [] then Inl (ValueError ''LLM response has no message'')
                           else
                             (case dict_get message ''content'' of
                                None \<Rightarrow> Inl (ValueError ''LLM response has no content'')
                              | Some content \<Rightarrow>
                                  if content = []
                                  then Inl (ValueError ''LLM response has no content'')
                                  else Inr content)))))"

section \<open>Theme generation\<close>

text \<open>The prompt of lines 224 to 228 (and 444 to 448, the same text).\<close>

definition themes_prompt :: "string \<Rightarrow> string" where
  "themes_prompt event_idea =
     ''Generate exactly five professional, creative, and distinct event ideas '' @
     ''with titles and detailed descriptions based on: '' @ [QUOTE] @ event_idea @ [QUOTE] @ ''. '' @
     ''Format each theme as a numbered bold title followed by its description''"

text \<open>
  The body of the \<open>try\<close> of \<open>_generate_themes\<close> (lines 231 to 265): the themes, or the
  exception that leaves the body.
\<close>

definition generate_themes_try :: "completion \<Rightarrow> settings \<Rightarrow> string \<Rightarrow> py_exception + string list" where
  "generate_themes_try llm cfg event_idea =
     (case extract_content (llm cfg (themes_prompt event_idea)) of
        Inl e \<Rightarrow> Inl e
      | Inr content \<Rightarrow>
          (let cleaned_themes = parse_themes content
           in if cleaned_themes = []
              then Inl (ValueError ''Failed to extract themes from LLM response'')
              else Inr cleaned_themes))"




section \<open>Plan refinement\<close>

text \<open>\<open>EventPlanInput\<close> (lines 145 to 154).\<close>

record event_plan_input =
  selected_theme :: string
  start_date :: string
  end_date :: string
  start_time :: string
  end_time :: string
  location :: string
  event_type :: string
  moderators :: "str_dict list"

text \<open>
  One moderator's phrase (lines 300 and 497): \<open>moderator['name']\<close> and
  \<open>moderator['city']\<close> raise \<open>KeyError\<close> when the key is missing, in this order;
  \<open>moderator.get('description', 'events')\<close> does not.
\<close>

definition moderator_description :: "str_dict \<Rightarrow> py_exception + string" where
  "moderator_description moderator =
     (case dict_getitem moderator ''name'' of
        Inl e \<Rightarrow> Inl e
      | Inr name \<Rightarrow>
          (case dict_getitem moderator ''city'' of
             Inl e \<Rightarrow> Inl e
           | Inr city \<Rightarrow>
               Inr (name @ '' from '' @ city @ '' with expertise in '' @
                    dict_get_default moderator ''description'' ''events'')))"

text \<open>The list comprehension: the phrases in order, or the first exception.\<close>

fun moderator_description_list :: "str_dict list \<Rightarrow> py_exception + string list" where
  "moderator_description_list [] = Inr []"
| "moderator_description_list (m # ms) =
     (case moderator_description m of
        Inl e \<Rightarrow> Inl e
      | Inr d \<Rightarrow>
          (case moderator_description_list ms of
             Inl e \<Rightarrow> Inl e
           | Inr ds \<Rightarrow> Inr (d # ds)))"

text \<open>\<open>moderators_str\<close> (lines 299 to 303 and 496 to 500, the same text).\<close>

definition moderators_str :: "str_dict list \<Rightarrow> py_exception + string" where
  "moderators_str ms =
     (case moderator_description_list ms of
        Inl e \<Rightarrow> Inl e
      | Inr ds \<Rightarrow>
          Inr (if ms \<noteq> []
               then ''The moderators for this event are: '' @ join '' '' ds @ ''.''
               else ''No specific moderators provided.''))"

text \<open>The two templates of \<open>_refine_plan\<close>: lines 307 to 314 and lines 316 to 326.\<close>

definition single_day_prompt :: "event_plan_input \<Rightarrow> string \<Rightarrow> string" where
  "single_day_prompt inp mods =
     ''Using the theme: '' @ [QUOTE] @ selected_theme inp @ [QUOTE] @
     '', provide a detailed descriptive agenda with timings '' @
     ''(from '' @ start_time inp @ '' to '' @ end_time inp @
     ''), location, target audience, and purpose for the event on '' @ start_date inp @ ''. '' @
     ''It is a '' @ event_type inp @ '' event at '' @ location inp @ ''. '' @
     mods @ '' '' @
     ''Additionally, draft a professional and concise email invitation content that includes the event title, '' @
     ''date, time, location, and a brief overview to invite participants.''"

definition balance_instruction :: string where
  "balance_instruction =
     ''showing a balanced distribution of sessions, breaks, and networking events for both days. ''"

definition multi_day_prompt :: "event_plan_input \<Rightarrow> string \<Rightarrow> string" where
  "multi_day_prompt inp mods =
     ''Using the theme: '' @ [QUOTE] @ selected_theme inp @ [QUOTE] @
     '', provide a detailed descriptive agenda with timings '' @
     ''(from '' @ start_time inp @ '' to '' @ end_time inp @
     ''), location, target audience, and purpose for the event '' @
     ''from '' @ start_date inp @ '' to '' @ end_date inp @ ''. '' @
     ''It is a '' @ event_type inp @ '' event at '' @ location inp @ ''. '' @
     mods @ '' '' @
     ''Please make sure to split the agenda across both days ('' @
     start_date inp @ '' and '' @ end_date inp @ ''), '' @
     balance_instruction @
     ''Additionally, draft a professional and concise email invitation content that includes the event title, '' @
     ''date range, daily timings, location, and a brief overview to invite participants.''"

text \<open>
  The prompt that \<open>_refine_plan\<close> builds before its \<open>try\<close> (lines 299 to 326). String
  equality is equality of the code points.
\<close>

definition refine_plan_prompt :: "event_plan_input \<Rightarrow> py_exception + string" where
  "refine_plan_prompt inp =
     (case moderators_str (moderators inp) of
        Inl e \<Rightarrow> Inl e
      | Inr mods \<Rightarrow>
          Inr (if start_date inp = end_date inp
               then single_day_prompt inp mods
               else multi_day_prompt inp mods))"

text \<open>The fallback document of lines 359 to 378.\<close>

definition error_plan :: "settings \<Rightarrow> event_plan_input \<Rightarrow> py_exception \<Rightarrow> string" where
  "error_plan cfg inp e =
     ''\<newline># Event Planning Error\<newline>\<newline>'' @
     ''**Theme**: '' @ selected_theme inp @ ''\<newline>'' @
     ''**Location**: '' @ location inp @ ''\<newline>'' @
     ''**Date**: '' @ start_date inp @ '' to '' @ end_date inp @ ''\<newline>'' @
     ''**Time**: '' @ start_time inp @ '' - '' @ end_time inp @ ''\<newline>\<newline>'' @
     ''## Error Details\<newline>'' @
     ''Unable to generate event plan due to: '' @ exc_str e @ ''\<newline>\<newline>'' @
     ''## Troubleshooting\<newline>'' @
     ''1. Verify NIM_BASE_URL is set correctly: '' @ nim_base_url cfg @ ''\<newline>'' @
     ''2. Check NVIDIA_API_KEY is valid\<newline>'' @
     ''3. Ensure NVIDIA NIM endpoint is running and accessible\<newline>'' @
     ''4. Check network connectivity\<newline>'' @
     ''5. Verify model name: '' @ model_name cfg @ ''\<newline>\<newline>'' @
     ''Please check your configuration and try again.\<newline>''"

text \<open>
  \<open>_refine_plan\<close>, the function registered as \<open>refine_event_plan\<close>: the \<open>refined_plan\<close>
  of its output, or the \<open>KeyError\<close> of a moderator without name or city, which is
  raised before the \<open>try\<close> and reaches the caller.
\<close>

definition refine_plan :: "completion \<Rightarrow> settings \<Rightarrow> event_plan_input \<Rightarrow> py_exception + string" where
  "refine_plan llm cfg inp =
     (case refine_plan_prompt inp of
        Inl e \<Rightarrow> Inl e
      | Inr prompt \<Rightarrow>
          (case extract_content (llm cfg prompt) of
             Inr content \<Rightarrow> Inr (strip content)
           | Inl e \<Rightarrow> Inr (error_plan cfg inp e)))"

text \<open>
  \<open>EventPlanningWorkflow.start_event_planning\<close> (lines 488 to 564). Its event details are
  a \<open>dict\<close>, read with \<open>event_details[...]\<close>; the reads happen in the order of the
  source text, first for the comparison and then inside the chosen template. The two
  templates are lines 503 to 509 and 511 to 518.
\<close>

definition workflow_single_day_prompt ::
  "string \<Rightarrow> string \<Rightarrow> string \<Rightarrow> string \<Rightarrow> string \<Rightarrow> string \<Rightarrow> string \<Rightarrow> string" where
  "workflow_single_day_prompt theme s_time e_time s_date e_type loc mods =
     ''Using the theme: '' @ [QUOTE] @ theme @ [QUOTE] @
     '', provide a detailed descriptive agenda with timings '' @
     ''(from '' @ s_time @ '' to '' @ e_time @
     ''), location, target audience, and purpose for the event on '' @ s_date @ ''. '' @
     ''It is a '' @ e_type @ '' event at '' @ loc @ ''. '' @
     mods @ '' '' @
     ''Additionally, draft a professional and concise email invitation content.''"

definition split_instruction :: string where
  "split_instruction = ''Split the agenda across both days. ''"

definition workflow_multi_day_prompt ::
  "string \<Rightarrow> string \<Rightarrow> string \<Rightarrow> string \<Rightarrow> string \<Rightarrow> string \<Rightarrow> string \<Rightarrow> string \<Rightarrow> string" where
  "workflow_multi_day_prompt theme s_time e_time s_date e_date e_type loc mods =
     ''Using the theme: '' @ [QUOTE] @ theme @ [QUOTE] @
     '', provide a detailed descriptive agenda with timings '' @
     ''(from '' @ s_time @ '' to '' @ e_time @
     ''), location, target audience, and purpose for the event '' @
     ''from '' @ s_date @ '' to '' @ e_date @ ''. '' @
     ''It is a '' @ e_type @ '' event at '' @ loc @ ''. '' @
     mods @ '' '' @
     split_instruction @ ''Additionally, draft a professional email invitation.''"

definition bind_exc :: "py_exception + 'a \<Rightarrow> ('a \<Rightarrow> py_exception + 'b) \<Rightarrow> py_exception + 'b" where
  "bind_exc r f = (case r of Inl e \<Rightarrow> Inl e | Inr x \<Rightarrow> f x)"

definition workflow_plan_prompt :: "string \<Rightarrow> str_dict \<Rightarrow> str_dict list \<Rightarrow> py_exception + string" where
  "workflow_plan_prompt theme event_details mods_in =
     bind_exc (moderators_str mods_in) (\<lambda>mods.
     bind_exc (dict_getitem event_details ''start_date'') (\<lambda>d1.
     bind_exc (dict_getitem event_details ''end_date'') (\<lambda>d2.
       if d1 = d2 then
         bind_exc (dict_getitem event_details ''start_time'') (\<lambda>s_time.
         bind_exc (dict_getitem event_details ''end_time'') (\<lambda>e_time.
         bind_exc (dict_getitem event_details ''start_date'') (\<lambda>s_date.
         bind_exc (dict_getitem event_details ''event_type'') (\<lambda>e_type.
         bind_exc (dict_getitem event_details ''location'') (\<lambda>loc.
           Inr (workflow_single_day_prompt theme s_time e_time s_date e_type loc mods))))))
       else
         bind_exc (dict_getitem event_details ''start_time'') (\<lambda>s_time.
         bind_exc (dict_getitem event_details ''end_time'') (\<lambda>e_time.
         bind_exc (dict_getitem event_details ''start_date'') (\<lambda>s_date.
         bind_exc (dict_getitem event_details ''end_date'') (\<lambda>e_date.
         bind_exc (dict_getitem event_details ''event_type'') (\<lambda>e_type.
         bind_exc (dict_getitem event_details ''location'') (\<lambda>loc.
           Inr (workflow_multi_day_prompt theme s_time e_time s_date e_date e_type loc mods))))))))))"

text \<open>
  The plan that \<open>start_event_planning\<close> returns (what it prints is the same text and the
  participants, and is left out).
\<close>

definition start_event_planning ::
  "completion \<Rightarrow> settings \<Rightarrow> string \<Rightarrow> str_dict \<Rightarrow> str_dict list \<Rightarrow> py_exception + string" where
  "start_event_planning llm cfg theme event_details mods_in =
     (case workflow_plan_prompt theme event_details mods_in of
        Inl e \<Rightarrow> Inl e
      | Inr prompt \<Rightarrow>
          (case extract_content (llm cfg prompt) of
             Inr content \<Rightarrow> Inr (strip content)
           | Inl e \<Rightarrow>
               Inr (''Error generating plan: '' @ exc_str e @
                    ''\<newline>Please check your LLM configuration.'')))"

section \<open>The record store\<close>

text \<open>
  The two tables that \<open>create_database\<close> declares (\<open>db_setup.py\<close>, lines 36 to 61). A
  column without \<open>NOT NULL\<close> may hold \<open>NULL\<close>. A table is its rows in rowid order
  (the order of insertion) and the largest id given so far (\<open>AUTOINCREMENT\<close>); a
  store file holds each table or not (a file that \<open>sqlite3.connect\<close> has just created
  holds none).
\<close>

record moderator_row =
  mod_id :: nat
  mod_name :: string
  mod_city :: "string option"
  mod_description :: "string option"
  mod_email :: "string option"
  mod_phone :: "string option"
  mod_expertise :: "string option"
  mod_created_at :: string

record participant_row =
  par_id :: nat
  par_name :: string
  par_email :: string
  par_company :: "string option"
  par_role :: "string option"
  par_phone :: "string option"
  par_created_at :: string

record 'r table =
  tbl_rows :: "'r list"
  tbl_seq :: nat

record store =
  moderators_tbl :: "moderator_row table option"
  participants_tbl :: "participant_row table option"

text \<open>
  What the code prints, one constructor for each \<open>print\<close> of the data-access
  operations, with the value it formats into the line.
\<close>

datatype console_line =
    ModeratorAdded string
  | ParticipantAdded string
  | ParticipantExists string
  | FetchModeratorsError string
  | FetchParticipantsError string

text \<open>
  The state around a call: the store file at the configured path, the number of
  connections that are open, and the console.
\<close>

record world =
  db :: store
  open_connections :: nat
  console :: "console_line list"

definition get_connection :: "world \<Rightarrow> world" where
  "get_connection w = w\<lparr>open_connections := Suc (open_connections w)\<rparr>"

definition conn_close :: "world \<Rightarrow> world" where
  "conn_close w = w\<lparr>open_connections := open_connections w - 1\<rparr>"

definition print_line :: "console_line \<Rightarrow> world \<Rightarrow> world" where
  "print_line l w = w\<lparr>console := console w @ [l]\<rparr>"

subsection \<open>The statements\<close>

text \<open>
  Each statement of the source on a store: the rows it returns or the store it leaves,
  or the exception of \<open>cursor.execute\<close>. A statement on a table that does not exist
  fails with \<open>OperationalError\<close>. A query without \<open>WHERE\<close> scans the table, so its
  rows come in rowid order, which is the order of \<open>tbl_rows\<close>. \<open>LIMIT ?\<close> with a
  negative value puts no bound; a Python integer outside the 64-bit range cannot be
  bound at all.
\<close>

definition select_moderators :: "store \<Rightarrow> py_exception + moderator_row list" where
  "select_moderators s =
     (case moderators_tbl s of
        None \<Rightarrow> Inl (OperationalError ''no such table: moderators'')
      | Some t \<Rightarrow> Inr (tbl_rows t))"

definition select_participants :: "store \<Rightarrow> py_exception + participant_row list" where
  "select_participants s =
     (case participants_tbl s of
        None \<Rightarrow> Inl (OperationalError ''no such table: participants'')
      | Some t \<Rightarrow> Inr (tbl_rows t))"

definition select_participants_limit :: "int \<Rightarrow> store \<Rightarrow> py_exception + participant_row list" where
  "select_participants_limit n s =
     (if n < - (2 ^ 63) \<or> 2 ^ 63 \<le> n
      then Inl (OverflowError ''Python int too large to convert to SQLite INTEGER'')
      else
        (case participants_tbl s of
           None \<Rightarrow> Inl (OperationalError ''no such table: participants'')
         | Some t \<Rightarrow> Inr (if n < 0 then tbl_rows t else take (nat n) (tbl_rows t))))"

text \<open>
  The engine's bound on the number of \<open>?\<close> parameters of one statement
  (\<open>SQLITE_MAX_VARIABLE_NUMBER\<close>, 32766 by default): a statement with more is refused with
  \<open>OperationalError\<close> when it is prepared.
\<close>

definition max_variable_number :: nat where
  "max_variable_number = 32766"

text \<open>
  \<open>WHERE name IN (?, ...)\<close> is membership in the bound values. Both tables have an
  index on \<open>name\<close> (\<open>idx_moderators_name\<close>, \<open>idx_participants_name\<close>, lines 65 to 78 of
  \<open>db_setup.py\<close>), and the engine answers the query through it: the rows come in the
  order of the index, that is by name (compared code point by code point, a prefix
  first) and, for equal names, by rowid. \<open>sort_key\<close> is a stable sort, so it gives that
  order from the rows in rowid order.
\<close>

definition select_moderators_in :: "string list \<Rightarrow> store \<Rightarrow> py_exception + moderator_row list" where
  "select_moderators_in names s =
     (if max_variable_number < length names
      then Inl (OperationalError ''too many SQL variables'')
      else
        (case moderators_tbl s of
           None \<Rightarrow> Inl (OperationalError ''no such table: moderators'')
         | Some t \<Rightarrow>
             Inr (sort_key mod_name (filter (\<lambda>r. mod_name r \<in> set names) (tbl_rows t)))))"

definition select_participants_in :: "string list \<Rightarrow> store \<Rightarrow> py_exception + participant_row list" where
  "select_participants_in names s =
     (if max_variable_number < length names
      then Inl (OperationalError ''too many SQL variables'')
      else
        (case participants_tbl s of
           None \<Rightarrow> Inl (OperationalError ''no such table: participants'')
         | Some t \<Rightarrow>
             Inr (sort_key par_name (filter (\<lambda>r. par_name r \<in> set names) (tbl_rows t)))))"

definition insert_moderator ::
  "string \<Rightarrow> string \<Rightarrow> string \<Rightarrow> string \<Rightarrow> string option \<Rightarrow> string option \<Rightarrow> string \<Rightarrow>
   store \<Rightarrow> py_exception + store" where
  "insert_moderator name city description email phone expertise now s =
     (case moderators_tbl s of
        None \<Rightarrow> Inl (OperationalError ''no such table: moderators'')
      | Some t \<Rightarrow>
          Inr (s\<lparr>moderators_tbl := Some
                 \<lparr>tbl_rows = tbl_rows t @
                    [\<lparr>mod_id = Suc (tbl_seq t), mod_name = name, mod_city = Some city,
                      mod_description = Some description, mod_email = Some email,
                      mod_phone = phone, mod_expertise = expertise, mod_created_at = now\<rparr>],
                  tbl_seq = Suc (tbl_seq t)\<rparr>\<rparr>))"

text \<open>
  \<open>email TEXT NOT NULL UNIQUE\<close>: an insert whose email is already in the table fails
  with \<open>IntegrityError\<close> and changes nothing.
\<close>

definition insert_participant ::
  "string \<Rightarrow> string \<Rightarrow> string option \<Rightarrow> string option \<Rightarrow> string option \<Rightarrow> string \<Rightarrow>
   store \<Rightarrow> py_exception + store" where
  "insert_participant name email company role phone now s =
     (case participants_tbl s of
        None \<Rightarrow> Inl (OperationalError ''no such table: participants'')
      | Some t \<Rightarrow>
          if email \<in> par_email ` set (tbl_rows t)
          then Inl (IntegrityError ''UNIQUE constraint failed: participants.email'')
          else
            Inr (s\<lparr>participants_tbl := Some
                   \<lparr>tbl_rows = tbl_rows t @
                      [\<lparr>par_id = Suc (tbl_seq t), par_name = name, par_email = email,
                        par_company = company, par_role = role, par_phone = phone,
                        par_created_at = now\<rparr>],
                    tbl_seq = Suc (tbl_seq t)\<rparr>\<rparr>))"

subsection \<open>The two reads\<close>

text \<open>\<open>dict(row)\<close> for the columns each query selects.\<close>

definition moderator_dict :: "moderator_row \<Rightarrow> (string \<times> string option) list" where
  "moderator_dict r =
     [(''name'', Some (mod_name r)), (''city'', mod_city r), (''description'', mod_description r),
      (''email'', mod_email r), (''phone'', mod_phone r), (''expertise'', mod_expertise r)]"

definition participant_dict :: "participant_row \<Rightarrow> (string \<times> string option) list" where
  "participant_dict r =
     [(''name'', Some (par_name r)), (''email'', Some (par_email r)), (''company'', par_company r),
      (''role'', par_role r), (''phone'', par_phone r)]"

text \<open>
  A Python list is true when it is not empty, an integer when it is not zero, and
  \<open>None\<close> is false.
\<close>

definition truthy_list :: "'a list option \<Rightarrow> bool" where
  "truthy_list xs = (case xs of None \<Rightarrow> False | Some l \<Rightarrow> l \<noteq> [])"

definition truthy_int :: "int option \<Rightarrow> bool" where
  "truthy_int n = (case n of None \<Rightarrow> False | Some i \<Rightarrow> i \<noteq> 0)"

text \<open>
  \<open>DatabaseManager.fetch_moderators_from_db\<close> (lines 52 to 85): the connection is
  opened before the \<open>try\<close>; \<open>except sqlite3.Error\<close> prints and returns the empty list;
  \<open>finally\<close> closes the connection on every way out of the \<open>try\<close>.
\<close>

definition fetch_moderators_from_db ::
  "string list option \<Rightarrow> world \<Rightarrow> (py_exception + (string \<times> string option) list list) \<times> world" where
  "fetch_moderators_from_db moderator_names w =
     (let w1 = get_connection w;
          outcome = (if truthy_list moderator_names
                     then select_moderators_in (the moderator_names) (db w1)
                     else select_moderators (db w1))
      in case outcome of
           Inr rows \<Rightarrow> (Inr (map moderator_dict rows), conn_close w1)
         | Inl e \<Rightarrow>
             if is_sqlite_error e
             then (Inr [], conn_close (print_line (FetchModeratorsError (exc_str e)) w1))
             else (Inl e, conn_close w1))"

text \<open>
  \<open>DatabaseManager.fetch_participants_from_db\<close> (lines 87 to 126): the limit is looked
  at only in the \<open>else\<close> branch of \<open>if participant_names\<close>, and only when it is true.
\<close>

definition fetch_participants_from_db ::
  "string list option \<Rightarrow> int option \<Rightarrow> world \<Rightarrow>
   (py_exception + (string \<times> string option) list list) \<times> world" where
  "fetch_participants_from_db participant_names limit w =
     (let w1 = get_connection w;
          outcome = (if truthy_list participant_names
                     then select_participants_in (the participant_names) (db w1)
                     else if truthy_int limit
                          then select_participants_limit (the limit) (db w1)
                          else select_participants (db w1))
      in case outcome of
           Inr rows \<Rightarrow> (Inr (map participant_dict rows), conn_close w1)
         | Inl e \<Rightarrow>
             if is_sqlite_error e
             then (Inr [], conn_close (print_line (FetchParticipantsError (exc_str e)) w1))
             else (Inl e, conn_close w1))"

subsection \<open>The two writes\<close>

text \<open>
  \<open>add_moderator\<close> (\<open>db_setup.py\<close>, lines 199 to 219) has no \<open>try\<close>: an exception of
  \<open>cursor.execute\<close> leaves the function at once, before \<open>conn.close()\<close>. \<open>now\<close> is the
  store's clock, for the \<open>created_at\<close> column.
\<close>

definition add_moderator ::
  "string \<Rightarrow> string \<Rightarrow> string \<Rightarrow> string \<Rightarrow> string option \<Rightarrow> string option \<Rightarrow> string \<Rightarrow>
   world \<Rightarrow> (py_exception + unit) \<times> world" where
  "add_moderator name city description email phone expertise now w =
     (let w1 = get_connection w
      in case insert_moderator name city description email phone expertise now (db w1) of
           Inl e \<Rightarrow> (Inl e, w1)
         | Inr s \<Rightarrow> (Inr (), print_line (ModeratorAdded name) (conn_close (w1\<lparr>db := s\<rparr>))))"

text \<open>
  \<open>add_participant\<close> (\<open>db_setup.py\<close>, lines 222 to 245): \<open>except sqlite3.IntegrityError\<close>
  prints that the email exists and the function returns normally; any other exception
  goes on to the caller; \<open>finally\<close> closes the connection either way.
\<close>

definition add_participant ::
  "string \<Rightarrow> string \<Rightarrow> string option \<Rightarrow> string option \<Rightarrow> string option \<Rightarrow> string \<Rightarrow>
   world \<Rightarrow> (py_exception + unit) \<times> world" where
  "add_participant name email company role phone now w =
     (let w1 = get_connection w
      in case insert_participant name email company role phone now (db w1) of
           Inr s \<Rightarrow> (Inr (), conn_close (print_line (ParticipantAdded name) (w1\<lparr>db := s\<rparr>)))
         | Inl (IntegrityError m) \<Rightarrow> (Inr (), conn_close (print_line (ParticipantExists email) w1))
         | Inl e \<Rightarrow> (Inl e, conn_close w1))"

section \<open>The registration module\<close>

text \<open>
  The names that \<open>event_planning_nemo.py\<close> binds at its top level, in the order of the
  file: its imports, its classes, its two global instances and its four registered
  functions.
\<close>

definition event_planning_nemo_names :: "string list" where
  "event_planning_nemo_names =
     [''re'', ''asyncio'', ''sqlite3'', ''os'', ''Dict'', ''List'', ''Any'', ''Optional'', ''Path'',
      ''BaseModel'', ''Field'', ''load_dotenv'', ''completion'', ''FunctionBaseConfig'',
      ''register_function'', ''Builder'', ''FunctionInfo'', ''Settings'', ''settings'',
      ''DatabaseManager'', ''db_manager'', ''EventIdeaInput'', ''ThemesOutput'', ''EventPlanInput'',
      ''EventPlanOutput'', ''ModeratorsInput'', ''ModeratorsOutput'', ''ParticipantsInput'',
      ''ParticipantsOutput'', ''HumanPromptTextInput'', ''GenerateEventThemesConfig'',
      ''RefineEventPlanConfig'', ''FetchModeratorsConfig'', ''FetchParticipantsConfig'',
      ''generate_event_themes'', ''refine_event_plan'', ''fetch_moderators'', ''fetch_participants'',
      ''EventPlanningWorkflow'']"

text \<open>
  \<open>from module import a, b, ...\<close>: the names are looked up in the module one after the
  other, and the first one that the module does not define raises \<open>ImportError\<close> for
  that name. The result is the names bound, or the name that could not be imported.
\<close>

datatype import_error = CannotImportName string

fun import_from :: "string list \<Rightarrow> string list \<Rightarrow> import_error + string list" where
  "import_from module_names [] = Inr []"
| "import_from module_names (n # ns) =
     (if n \<in> set module_names
      then (case import_from module_names ns of
              Inl e \<Rightarrow> Inl e
            | Inr bound \<Rightarrow> Inr (n # bound))
      else Inl (CannotImportName n))"

text \<open>
  Running the body of \<open>event_planning_nemo.py\<close>. Each of its four functions is defined
  under \<open>@register_function(config_type=...)\<close> (lines 211, 285, 388 and 411), so the
  decorator of the host framework is applied to it when the definition is executed, in
  the order of the file. The decorator is outside the repository: its effect on the
  state of the host framework is the parameter \<open>register_function\<close>, given the name of
  the configuration class and the name of the function. The rest of the body (the
  imports, the classes, the two global instances) only binds the names listed above.
\<close>

definition run_event_planning_nemo :: "(string \<Rightarrow> string \<Rightarrow> 'r \<Rightarrow> 'r) \<Rightarrow> 'r \<Rightarrow> 'r" where
  "run_event_planning_nemo register_function registry =
     register_function ''FetchParticipantsConfig'' ''fetch_participants''
       (register_function ''FetchModeratorsConfig'' ''fetch_moderators''
          (register_function ''RefineEventPlanConfig'' ''refine_event_plan''
             (register_function ''GenerateEventThemesConfig'' ''generate_event_themes''
                registry)))"

text \<open>
  \<open>register.py\<close>: its one import statement (lines 7 to 13), then \<open>__all__\<close>. The import
  statement first imports the implementation module, which runs its body (here for the
  first time in the process), and only then looks the five names up in it. An exception
  while the body of \<open>register.py\<close> runs is the outcome of importing it, and the module
  is not available; otherwise the outcome is the names the module has bound. Either way
  the state of the host framework is what the implementation module has left.
\<close>

definition register_imports :: "string list" where
  "register_imports =
     [''generate_event_themes'', ''refine_event_plan'', ''fetch_moderators'',
      ''fetch_participants'', ''ask_user'']"

definition import_register ::
  "(string \<Rightarrow> string \<Rightarrow> 'r \<Rightarrow> 'r) \<Rightarrow> 'r \<Rightarrow> (import_error + string list) \<times> 'r" where
  "import_register register_function registry =
     (let registry' = run_event_planning_nemo register_function registry
      in case import_from event_planning_nemo_names register_imports of
           Inl e \<Rightarrow> (Inl e, registry')
         | Inr bound \<Rightarrow> (Inr (bound @ [''__all__'']), registry'))"

section \<open>Sample data\<close>

text \<open>
  The defaults of \<open>Settings\<close>, three completion services that fail in three ways, and a
  store holding some of the rows that \<open>seed_sample_data\<close> inserts. The theorems below
  are run on them.
\<close>

definition default_settings :: settings where
  "default_settings =
     \<lparr>nim_base_url = ''http://localhost:8202'', nim_api_key = [],
      model_name = ''meta/llama3.1-8b-instruct'', db_path = ''event_planning.db''\<rparr>"


definition empty_content_completion :: completion where
  "empty_content_completion cfg prompt =
     Inr (RDict [(''choices'',
                  Some [[(''message'', Some [(''role'', Some ''assistant''),
                                              (''content'', Some [])])]])])"

definition marker_only_completion :: completion where
  "marker_only_completion cfg prompt =
     Inr (RDict [(''choices'',
                  Some [[(''message'', Some [(''role'', Some ''assistant''),
                                              (''content'', Some ''**1. '')])]])])"

definition sample_participants :: "participant_row table" where
  "sample_participants =
     \<lparr>tbl_rows =
        [\<lparr>par_id = 1, par_name = ''Alice Smith'', par_email = ''alice.smith@techcorp.com'',
          par_company = Some ''TechCorp'', par_role = Some ''Software Engineer'',
          par_phone = Some ''+1-555-0101'', par_created_at = ''2025-01-01 00:00:00''\<rparr>,
         \<lparr>par_id = 2, par_name = ''Bob Johnson'', par_email = ''bob.johnson@innovate.com'',
          par_company = Some ''Innovate Inc'', par_role = Some ''Product Manager'',
          par_phone = Some ''+1-555-0102'', par_created_at = ''2025-01-01 00:00:00''\<rparr>,
         \<lparr>par_id = 3, par_name = ''Carol White'', par_email = ''carol.white@datalytics.com'',
          par_company = Some ''DataLytics'', par_role = Some ''Data Scientist'',
          par_phone = Some ''+1-555-0103'', par_created_at = ''2025-01-01 00:00:00''\<rparr>],
      tbl_seq = 3\<rparr>"

definition sample_moderators :: "moderator_row table" where
  "sample_moderators =
     \<lparr>tbl_rows =
        [\<lparr>mod_id = 1, mod_name = ''Jai Kumar'', mod_city = Some ''Hyderabad'',
          mod_description = Some ''Experienced technical event moderator with 10+ years'',
          mod_email = Some ''jai.kumar@example.com'', mod_phone = Some ''+91-9876543210'',
          mod_expertise = Some ''Technical, AI/ML, Cloud Computing'',
          mod_created_at = ''2025-01-01 00:00:00''\<rparr>,
         \<lparr>mod_id = 2, mod_name = ''Priya Sharma'', mod_city = Some ''Bangalore'',
          mod_description = Some ''Expert in corporate events and team building activities'',
          mod_email = Some ''priya.sharma@example.com'', mod_phone = Some ''+91-9876543211'',
          mod_expertise = Some ''Corporate, Team Building, Leadership'',
          mod_created_at = ''2025-01-01 00:00:00''\<rparr>],
      tbl_seq = 2\<rparr>"

definition sample_world :: world where
  "sample_world =
     \<lparr>db = \<lparr>moderators_tbl = Some sample_moderators, participants_tbl = Some sample_participants\<rparr>,
      open_connections = 0, console = []\<rparr>"

text \<open>The state after \<open>sqlite3.connect\<close> has created the file: no table yet.\<close>

definition fresh_file_world :: world where
  "fresh_file_world =
     \<lparr>db = \<lparr>moderators_tbl = None, participants_tbl = None\<rparr>,
      open_connections = 0, console = []\<rparr>"

definition sample_plan_input :: event_plan_input where
  "sample_plan_input =
     \<lparr>selected_theme = ''Paddle Summit'', start_date = ''24-01-2025'', end_date = ''25-01-2025'',
      start_time = ''11:00 AM'', end_time = ''5:00 PM'', location = ''HYDERABAD'',
      event_type = ''Technical Conference'',
      moderators = [[(''name'', ''Jai Kumar''), (''city'', ''Hyderabad'')]]\<rparr>"

definition sample_event_details :: str_dict where
  "sample_event_details =
     [(''start_date'', ''24-01-2025''), (''end_date'', ''24-01-2025''),
      (''start_time'', ''11:00 AM''), (''end_time'', ''5:00 PM''),
      (''location'', ''HYDERABAD''), (''event_type'', ''Technical Conference'')]"



text \<open>A completion service that answers with the prompt it was sent.\<close>

definition echo_completion :: completion where
  "echo_completion cfg prompt =
     Inr (RDict [(''choices'',
                  Some [[(''message'', Some [(''role'', Some ''assistant''),
                                              (''content'', Some prompt)])]])])"

definition single_day_plan_input :: event_plan_input where
  "single_day_plan_input =
     \<lparr>selected_theme = ''Paddle Summit'', start_date = ''24-01-2025'', end_date = ''24-01-2025'',
      start_time = ''11:00 AM'', end_time = ''5:00 PM'', location = ''HYDERABAD'',
      event_type = ''Technical Conference'', moderators = []\<rparr>"

definition two_day_event_details :: str_dict where
  "two_day_event_details =
     [(''start_date'', ''24-01-2025''), (''end_date'', ''25-01-2025''),
      (''start_time'', ''11:00 AM''), (''end_time'', ''5:00 PM''),
      (''location'', ''HYDERABAD''), (''event_type'', ''Technical Conference'')]"

text \<open>
  A host framework reduced to what is observed here: its state is the list of the
  registrations made so far, and the decorator adds one.
\<close>

definition record_registration ::
  "string \<Rightarrow> string \<Rightarrow> (string \<times> string) list \<Rightarrow> (string \<times> string) list" where
  "record_registration config_type fn registry = registry @ [(config_type, fn)]"


section \<open>Theme generation never fails upward\<close>



lemma generate_themes_try_empty_content:
  "generate_themes_try empty_content_completion cfg idea
     = Inl (ValueError ''LLM response has no content'')"
  by (simp add: generate_themes_try_def empty_content_completion_def extract_content_def
      dict_getitem_def dict_get_def)

lemma generate_themes_try_no_segment:
  "generate_themes_try marker_only_completion cfg idea
     = Inl (ValueError ''Failed to extract themes from LLM response'')"
  by (simp add: generate_themes_try_def marker_only_completion_def extract_content_def
      dict_getitem_def dict_get_def parse_themes_def pop_empty_head_def strip_def
      match_marker_def is_space_def is_digit_def)

lemma extract_content_malformed:
  "extract_content (Inr RNone) = Inl (ValueError ''LLM returned None response'')"
  "extract_content (Inr RObject) = Inl (ValueError ''LLM response has no choices'')"
  "extract_content (Inr (RDict [])) = Inl (KeyError ''choices'')"
  "extract_content (Inr (RDict [(''choices'', None)])) = Inl (ValueError ''LLM response has no choices'')"
  "extract_content (Inr (RDict [(''choices'', Some [])])) = Inl (ValueError ''LLM response has no choices'')"
  "extract_content (Inr (RDict [(''choices'', Some [[]])])) = Inl (ValueError ''LLM response has no message'')"
  by (simp_all add: extract_content_def dict_getitem_def dict_get_def)




section \<open>Reading participants and moderators\<close>

lemma close_after_open: "conn_close (get_connection w) = w"
  by (simp add: conn_close_def get_connection_def)

lemma close_print_open: "conn_close (print_line l (get_connection w)) = print_line l w"
  by (simp add: conn_close_def get_connection_def print_line_def)

lemma db_get_connection: "db (get_connection w) = db w"
  by (simp add: get_connection_def)




text \<open>The read of moderators by name has the same order and the same bound.\<close>

lemma fetch_moderators_by_names:
  assumes "names \<noteq> []" and "moderators_tbl (db w) = Some t"
  shows "length names \<le> max_variable_number \<Longrightarrow>
           fetch_moderators_from_db (Some names) w
             = (Inr (map moderator_dict
                       (sort_key mod_name
                          (filter (\<lambda>r. mod_name r \<in> set names) (tbl_rows t)))), w)"
    and "max_variable_number < length names \<Longrightarrow>
           fetch_moderators_from_db (Some names) w
             = (Inr [], print_line (FetchModeratorsError ''too many SQL variables'') w)"
  using assms
  by (simp_all add: fetch_moderators_from_db_def truthy_list_def select_moderators_in_def
      db_get_connection close_after_open close_print_open Let_def)

text \<open>
  Claim C5. \<open>fetch_moderators_from_db\<close> with an empty list of names does what it does
  with no names at all, and on a store that has the table both return every moderator
  row, unfiltered.
\<close>

theorem fetch_moderators_empty_names_is_no_filter:
  "fetch_moderators_from_db (Some []) w = fetch_moderators_from_db None w
   \<and> (\<forall>t. moderators_tbl (db w) = Some t \<longrightarrow>
         fetch_moderators_from_db (Some []) w = (Inr (map moderator_dict (tbl_rows t)), w))"
  by (simp add: fetch_moderators_from_db_def truthy_list_def select_moderators_def
      db_get_connection close_after_open Let_def)

theorem fetch_moderators_empty_names_is_no_filter_witness:
  "fetch_moderators_from_db (Some []) sample_world
     = (Inr [[(''name'', Some ''Jai Kumar''), (''city'', Some ''Hyderabad''),
              (''description'', Some ''Experienced technical event moderator with 10+ years''),
              (''email'', Some ''jai.kumar@example.com''), (''phone'', Some ''+91-9876543210''),
              (''expertise'', Some ''Technical, AI/ML, Cloud Computing'')],
             [(''name'', Some ''Priya Sharma''), (''city'', Some ''Bangalore''),
              (''description'', Some ''Expert in corporate events and team building activities''),
              (''email'', Some ''priya.sharma@example.com''), (''phone'', Some ''+91-9876543211''),
              (''expertise'', Some ''Corporate, Team Building, Leadership'')]], sample_world)"
proof -
  have tbl: "moderators_tbl (db sample_world) = Some sample_moderators"
    by (simp add: sample_world_def)
  from fetch_moderators_empty_names_is_no_filter [of sample_world] tbl
  have "fetch_moderators_from_db (Some []) sample_world
          = (Inr (map moderator_dict (tbl_rows sample_moderators)), sample_world)"
    by blast
  then show ?thesis by (simp add: sample_moderators_def moderator_dict_def)
qed

text \<open>
  Claim C9. \<open>fetch_participants_from_db\<close> with no names filter (none, or an empty list)
  and a limit that is false (zero, or none) applies no \<open>LIMIT\<close>: it does what the call
  without names and without limit does, and on a store that has the table it returns
  every participant row. A limit of zero means no limit, not zero rows.
\<close>

theorem fetch_participants_falsy_limit_is_no_limit:
  assumes "\<not> truthy_list names" and "\<not> truthy_int limit"
  shows "fetch_participants_from_db names limit w = fetch_participants_from_db None None w
         \<and> (\<forall>t. participants_tbl (db w) = Some t \<longrightarrow>
               fetch_participants_from_db names limit w
                 = (Inr (map participant_dict (tbl_rows t)), w))"
  using assms
  by (simp add: fetch_participants_from_db_def truthy_list_def truthy_int_def
      select_participants_def db_get_connection close_after_open Let_def)

theorem fetch_participants_falsy_limit_is_no_limit_witness:
  "fetch_participants_from_db None (Some 0) sample_world
     = (Inr [[(''name'', Some ''Alice Smith''), (''email'', Some ''alice.smith@techcorp.com''),
              (''company'', Some ''TechCorp''), (''role'', Some ''Software Engineer''),
              (''phone'', Some ''+1-555-0101'')],
             [(''name'', Some ''Bob Johnson''), (''email'', Some ''bob.johnson@innovate.com''),
              (''company'', Some ''Innovate Inc''), (''role'', Some ''Product Manager''),
              (''phone'', Some ''+1-555-0102'')],
             [(''name'', Some ''Carol White''), (''email'', Some ''carol.white@datalytics.com''),
              (''company'', Some ''DataLytics''), (''role'', Some ''Data Scientist''),
              (''phone'', Some ''+1-555-0103'')]], sample_world)"
proof -
  have n: "\<not> truthy_list (None :: string list option)" by (simp add: truthy_list_def)
  have l: "\<not> truthy_int (Some 0)" by (simp add: truthy_int_def)
  have tbl: "participants_tbl (db sample_world) = Some sample_participants"
    by (simp add: sample_world_def)
  from fetch_participants_falsy_limit_is_no_limit [OF n l, of sample_world] tbl
  have "fetch_participants_from_db None (Some 0) sample_world
          = (Inr (map participant_dict (tbl_rows sample_participants)), sample_world)"
    by blast
  then show ?thesis by (simp add: sample_participants_def participant_dict_def)
qed

section \<open>Writing participants and moderators\<close>

text \<open>
  Claim C3. In a store that holds a participant \<open>r\<close> with the email \<open>email\<close>, one more
  \<open>add_participant\<close> with that email fails inside on the uniqueness constraint and
  reports it on the console without raising; the store is what it was (so \<open>r\<close> is
  unchanged and no row is added), the connection is closed again, and a later read by
  name still returns \<open>r\<close>.
\<close>

theorem add_participant_duplicate_email:
  assumes "participants_tbl (db w) = Some t"
      and "r \<in> set (tbl_rows t)"
      and "par_email r = email"
  shows "insert_participant name email company role phone now (db w)
           = Inl (IntegrityError ''UNIQUE constraint failed: participants.email'')
         \<and> add_participant name email company role phone now w
           = (Inr (), print_line (ParticipantExists email) w)
         \<and> db (snd (add_participant name email company role phone now w)) = db w
         \<and> open_connections (snd (add_participant name email company role phone now w))
           = open_connections w
         \<and> (\<exists>rows. fst (fetch_participants_from_db (Some [par_name r]) None
                            (snd (add_participant name email company role phone now w)))
                      = Inr rows \<and> participant_dict r \<in> set rows)"
proof -
  have ins: "insert_participant name email company role phone now (db w)
           = Inl (IntegrityError ''UNIQUE constraint failed: participants.email'')"
    using assms by (auto simp: insert_participant_def)
  then have add: "add_participant name email company role phone now w
           = (Inr (), print_line (ParticipantExists email) w)"
    by (simp add: add_participant_def Let_def db_get_connection close_print_open)
  have "db (print_line (ParticipantExists email) w) = db w"
    and "open_connections (print_line (ParticipantExists email) w) = open_connections w"
    by (simp_all add: print_line_def)
  with assms ins add show ?thesis
    by (auto simp: fetch_participants_from_db_def truthy_list_def select_participants_in_def
        max_variable_number_def db_get_connection Let_def)
qed

theorem add_participant_duplicate_email_witness:
  "add_participant ''Alice Again'' ''alice.smith@techcorp.com'' None None None
     ''2025-02-02 00:00:00'' sample_world
     = (Inr (), sample_world\<lparr>console := [ParticipantExists ''alice.smith@techcorp.com'']\<rparr>)"
proof -
  have tbl: "participants_tbl (db sample_world) = Some sample_participants"
    by (simp add: sample_world_def)
  have mem: "hd (tbl_rows sample_participants) \<in> set (tbl_rows sample_participants)"
    by (simp add: sample_participants_def)
  have em: "par_email (hd (tbl_rows sample_participants)) = ''alice.smith@techcorp.com''"
    by (simp add: sample_participants_def)
  from add_participant_duplicate_email [OF tbl mem em]
  have "add_participant ''Alice Again'' ''alice.smith@techcorp.com'' None None None
          ''2025-02-02 00:00:00'' sample_world
          = (Inr (), print_line (ParticipantExists ''alice.smith@techcorp.com'') sample_world)"
    by blast
  then show ?thesis by (simp add: print_line_def sample_world_def)
qed

text \<open>A participant with a new email is added, and the store is changed by that row only.\<close>

lemma add_participant_new_email:
  assumes "participants_tbl (db w) = Some t" and "email \<notin> par_email ` set (tbl_rows t)"
  shows "\<exists>w'. add_participant name email company role phone now w = (Inr (), w')
           \<and> open_connections w' = open_connections w
           \<and> moderators_tbl (db w') = moderators_tbl (db w)
           \<and> (\<exists>t'. participants_tbl (db w') = Some t'
                  \<and> map par_email (tbl_rows t') = map par_email (tbl_rows t) @ [email])"
  using assms
  by (simp add: add_participant_def insert_participant_def Let_def get_connection_def
      conn_close_def print_line_def)

text \<open>
  The three operations written with \<open>try ... finally\<close> leave as many connections open
  as they found, on every way out; \<open>add_moderator\<close> does when it succeeds.
\<close>

lemma fetch_moderators_releases_connection:
  "open_connections (snd (fetch_moderators_from_db names w)) = open_connections w"
  by (simp add: fetch_moderators_from_db_def Let_def conn_close_def get_connection_def
      print_line_def split: sum.splits)

lemma fetch_participants_releases_connection:
  "open_connections (snd (fetch_participants_from_db names limit w)) = open_connections w"
  by (simp add: fetch_participants_from_db_def Let_def conn_close_def get_connection_def
      print_line_def split: sum.splits)

lemma add_participant_releases_connection:
  "open_connections (snd (add_participant name email company role phone now w))
     = open_connections w"
  by (simp add: add_participant_def Let_def conn_close_def get_connection_def
      print_line_def split: sum.splits py_exception.splits)

lemma add_moderator_success_releases_connection:
  "fst (add_moderator name city description email phone expertise now w) = Inr () \<Longrightarrow>
   open_connections (snd (add_moderator name city description email phone expertise now w))
     = open_connections w"
  by (simp add: add_moderator_def Let_def conn_close_def get_connection_def
      print_line_def split: sum.splits)

text \<open>
  Claim C8 does not hold of \<open>add_moderator\<close>. On a store file without the moderators
  table (a path that \<open>sqlite3.connect\<close> has just created), the insert raises, the
  exception reaches the caller, and the connection that the call opened is still open.
\<close>

theorem add_moderator_leaves_connection_open:
  "add_moderator ''Jai Kumar'' ''Hyderabad'' ''Technical event moderator''
     ''jai.kumar@example.com'' None None ''2025-01-01 00:00:00'' fresh_file_world
   = (Inl (OperationalError ''no such table: moderators''),
      \<lparr>db = \<lparr>moderators_tbl = None, participants_tbl = None\<rparr>,
       open_connections = 1, console = []\<rparr>)"
  by (simp add: add_moderator_def insert_moderator_def fresh_file_world_def get_connection_def)

section \<open>Importing the registration module\<close>

text \<open>
  Claim C10, as the code has it. Importing \<open>register.py\<close> fails: its import statement
  asks the implementation module for \<open>ask_user\<close>, which that module does not define,
  so the import raises for that name and the registration module makes none of its
  names available (the four documented names alone would have been imported). But the
  failure comes after the implementation module has run: whatever the decorator of the
  host framework does, it has by then been applied to the four functions, in the order
  of the file, and the failed import does not take that back.
\<close>

theorem register_import_fails_after_registration:
  "import_register register_function registry
     = (Inl (CannotImportName ''ask_user''),
        register_function ''FetchParticipantsConfig'' ''fetch_participants''
          (register_function ''FetchModeratorsConfig'' ''fetch_moderators''
             (register_function ''RefineEventPlanConfig'' ''refine_event_plan''
                (register_function ''GenerateEventThemesConfig'' ''generate_event_themes''
                   registry))))
   \<and> import_from event_planning_nemo_names
        [''generate_event_themes'', ''refine_event_plan'', ''fetch_moderators'',
         ''fetch_participants'']
      = Inr [''generate_event_themes'', ''refine_event_plan'', ''fetch_moderators'',
             ''fetch_participants'']"
  by (simp add: import_register_def run_event_planning_nemo_def register_imports_def
      event_planning_nemo_names_def)

text \<open>
  Claim C10 as stated fails in its second half: with a host framework that records each
  registration, importing the registration module into an empty registry raises, and
  the registry then holds the four functions.
\<close>

theorem register_import_registers_four:
  "import_register record_registration []
     = (Inl (CannotImportName ''ask_user''),
        [(''GenerateEventThemesConfig'', ''generate_event_themes''),
         (''RefineEventPlanConfig'', ''refine_event_plan''),
         (''FetchModeratorsConfig'', ''fetch_moderators''),
         (''FetchParticipantsConfig'', ''fetch_participants'')])"
  by (simp add: import_register_def run_event_planning_nemo_def register_imports_def
      event_planning_nemo_names_def record_registration_def)

section \<open>Theme parsing on the documented response\<close>

text \<open>
  Claim C4. For the response body \<open>**1. Title A**\nDesc A\n**2. Title B**\nDesc B\<close>, theme
  parsing yields exactly the two themes \<open>Title A**\nDesc A\<close> and \<open>Title B**\nDesc B\<close>: only the
  leading markers are removed, the closing asterisks stay, the empty piece before the
  first marker is dropped and each piece is trimmed.
\<close>

theorem parse_themes_documented_example:
  "parse_themes ''**1. Title A**\<newline>Desc A\<newline>**2. Title B**\<newline>Desc B''
     = [''Title A**\<newline>Desc A'', ''Title B**\<newline>Desc B'']"
  by (simp add: parse_themes_def pop_empty_head_def clean_theme_def strip_def
      match_marker_def is_space_def is_digit_def NL_def)

section \<open>Cleaning a theme\<close>










lemma strip_core:
  assumes "\<forall>c\<in>set w1. is_space c" and "\<forall>c\<in>set w2. is_space c"
      and "\<not> is_space x" and "\<not> is_space y"
  shows "strip (w1 @ x # m @ y # w2) = x # m @ [y]"
proof -
  have "dropWhile is_space (w1 @ x # m @ y # w2) = x # m @ y # w2"
    using assms(1,3) by (simp add: dropWhile_append3)
  moreover have "rev (x # m @ y # w2) = rev w2 @ y # rev m @ [x]" by simp
  moreover have "dropWhile is_space (rev w2 @ y # rev m @ [x]) = y # rev m @ [x]"
    using assms(2,4) by (simp add: dropWhile_append3)
  ultimately show ?thesis by (simp add: strip_def)
qed







section \<open>The prompt of a plan\<close>

lemma moderator_description_list_ok:
  "\<forall>m\<in>set ms. map_of m ''name'' \<noteq> None \<and> map_of m ''city'' \<noteq> None \<Longrightarrow>
   \<exists>ds. moderator_description_list ms = Inr ds"
  by (induction ms) (auto simp: moderator_description_def dict_getitem_def)

lemma moderators_str_ok:
  "\<forall>m\<in>set ms. map_of m ''name'' \<noteq> None \<and> map_of m ''city'' \<noteq> None \<Longrightarrow>
   \<exists>mods. moderators_str ms = Inr mods"
  using moderator_description_list_ok [of ms] by (auto simp: moderators_str_def)

text \<open>A moderator without a name makes \<open>_refine_plan\<close> raise before any prompt is built.\<close>

lemma refine_plan_moderator_without_name:
  "refine_plan llm cfg (sample_plan_input\<lparr>moderators := [[(''city'', ''Hyderabad'')]]\<rparr>)
     = Inl (KeyError ''name'')"
  by (simp add: refine_plan_def refine_plan_prompt_def moderators_str_def
      moderator_description_def dict_getitem_def)

text \<open>
  Claim C6. For an input whose moderators each have a name and a city, the prompt that
  \<open>_refine_plan\<close> sends to the completion service is chosen by the equality of the two
  dates and by nothing else. When \<open>start_date\<close> equals \<open>end_date\<close> it is the single-day
  text; otherwise it is the multi-day text, which names both dates and, after the
  moderators, carries the extra sentence asking to split the agenda across both days
  with a balanced distribution of sessions, breaks and networking events.
  \<open>start_event_planning\<close>, given event details with all six keys, chooses between its
  own two texts in the same way; its multi-day text carries the sentence
  \<open>Split the agenda across both days.\<close>
\<close>

theorem plan_prompt_selected_by_date_equality:
  assumes mods: "\<forall>m\<in>set (moderators inp). map_of m ''name'' \<noteq> None \<and> map_of m ''city'' \<noteq> None"
      and keys: "map_of details ''start_date'' = Some sd" "map_of details ''end_date'' = Some ed"
                "map_of details ''start_time'' = Some st" "map_of details ''end_time'' = Some et"
                "map_of details ''event_type'' = Some ty" "map_of details ''location'' = Some loc"
  shows "\<exists>mods prompt wprompt.
           moderators_str (moderators inp) = Inr mods
           \<and> prompt
               = (if start_date inp = end_date inp
                  then ''Using the theme: '' @ [QUOTE] @ selected_theme inp @ [QUOTE] @
                       '', provide a detailed descriptive agenda with timings (from '' @
                       start_time inp @ '' to '' @ end_time inp @
                       ''), location, target audience, and purpose for the event on '' @
                       start_date inp @ ''. It is a '' @ event_type inp @ '' event at '' @
                       location inp @ ''. '' @ mods @
                       '' Additionally, draft a professional and concise email invitation content that includes the event title, date, time, location, and a brief overview to invite participants.''
                  else ''Using the theme: '' @ [QUOTE] @ selected_theme inp @ [QUOTE] @
                       '', provide a detailed descriptive agenda with timings (from '' @
                       start_time inp @ '' to '' @ end_time inp @
                       ''), location, target audience, and purpose for the event from '' @
                       start_date inp @ '' to '' @ end_date inp @ ''. It is a '' @
                       event_type inp @ '' event at '' @ location inp @ ''. '' @ mods @
                       '' Please make sure to split the agenda across both days ('' @
                       start_date inp @ '' and '' @ end_date inp @
                       ''), showing a balanced distribution of sessions, breaks, and networking events for both days. Additionally, draft a professional and concise email invitation content that includes the event title, date range, daily timings, location, and a brief overview to invite participants.'')
           \<and> refine_plan_prompt inp = Inr prompt
           \<and> refine_plan llm cfg inp
               = (case extract_content (llm cfg prompt) of
                    Inr content \<Rightarrow> Inr (strip content)
                  | Inl e \<Rightarrow> Inr (error_plan cfg inp e))
           \<and> wprompt
               = (if sd = ed
                  then ''Using the theme: '' @ [QUOTE] @ theme @ [QUOTE] @
                       '', provide a detailed descriptive agenda with timings (from '' @
                       st @ '' to '' @ et @
                       ''), location, target audience, and purpose for the event on '' @
                       sd @ ''. It is a '' @ ty @ '' event at '' @ loc @ ''. '' @ mods @
                       '' Additionally, draft a professional and concise email invitation content.''
                  else ''Using the theme: '' @ [QUOTE] @ theme @ [QUOTE] @
                       '', provide a detailed descriptive agenda with timings (from '' @
                       st @ '' to '' @ et @
                       ''), location, target audience, and purpose for the event from '' @
                       sd @ '' to '' @ ed @ ''. It is a '' @ ty @ '' event at '' @ loc @
                       ''. '' @ mods @
                       '' Split the agenda across both days. Additionally, draft a professional email invitation.'')
           \<and> workflow_plan_prompt theme details (moderators inp) = Inr wprompt
           \<and> start_event_planning llm cfg theme details (moderators inp)
               = (case extract_content (llm cfg wprompt) of
                    Inr content \<Rightarrow> Inr (strip content)
                  | Inl e \<Rightarrow>
                      Inr (''Error generating plan: '' @ exc_str e @
                           ''\<newline>Please check your LLM configuration.''))"
proof -
  from moderators_str_ok [OF mods] obtain ms where ms: "moderators_str (moderators inp) = Inr ms"
    by blast
  define prompt where
    "prompt = (if start_date inp = end_date inp
               then single_day_prompt inp ms else multi_day_prompt inp ms)"
  define wprompt where
    "wprompt = (if sd = ed
                then workflow_single_day_prompt theme st et sd ty loc ms
                else workflow_multi_day_prompt theme st et sd ed ty loc ms)"
  have p: "refine_plan_prompt inp = Inr prompt"
    using ms by (simp add: refine_plan_prompt_def prompt_def)
  have w: "workflow_plan_prompt theme details (moderators inp) = Inr wprompt"
    using ms keys by (simp add: workflow_plan_prompt_def bind_exc_def dict_getitem_def wprompt_def)
  have r: "refine_plan llm cfg inp
               = (case extract_content (llm cfg prompt) of
                    Inr content \<Rightarrow> Inr (strip content)
                  | Inl e \<Rightarrow> Inr (error_plan cfg inp e))"
    by (simp add: refine_plan_def p)
  have s: "start_event_planning llm cfg theme details (moderators inp)
               = (case extract_content (llm cfg wprompt) of
                    Inr content \<Rightarrow> Inr (strip content)
                  | Inl e \<Rightarrow>
                      Inr (''Error generating plan: '' @ exc_str e @
                           ''\<newline>Please check your LLM configuration.''))"
    by (simp add: start_event_planning_def w)
  have pl: "prompt
               = (if start_date inp = end_date inp
                  then ''Using the theme: '' @ [QUOTE] @ selected_theme inp @ [QUOTE] @
                       '', provide a detailed descriptive agenda with timings (from '' @
                       start_time inp @ '' to '' @ end_time inp @
                       ''), location, target audience, and purpose for the event on '' @
                       start_date inp @ ''. It is a '' @ event_type inp @ '' event at '' @
                       location inp @ ''. '' @ ms @
                       '' Additionally, draft a professional and concise email invitation content that includes the event title, date, time, location, and a brief overview to invite participants.''
                  else ''Using the theme: '' @ [QUOTE] @ selected_theme inp @ [QUOTE] @
                       '', provide a detailed descriptive agenda with timings (from '' @
                       start_time inp @ '' to '' @ end_time inp @
                       ''), location, target audience, and purpose for the event from '' @
                       start_date inp @ '' to '' @ end_date inp @ ''. It is a '' @
                       event_type inp @ '' event at '' @ location inp @ ''. '' @ ms @
                       '' Please make sure to split the agenda across both days ('' @
                       start_date inp @ '' and '' @ end_date inp @
                       ''), showing a balanced distribution of sessions, breaks, and networking events for both days. Additionally, draft a professional and concise email invitation content that includes the event title, date range, daily timings, location, and a brief overview to invite participants.'')"
    by (simp add: prompt_def single_day_prompt_def multi_day_prompt_def balance_instruction_def)
  have wl: "wprompt
               = (if sd = ed
                  then ''Using the theme: '' @ [QUOTE] @ theme @ [QUOTE] @
                       '', provide a detailed descriptive agenda with timings (from '' @
                       st @ '' to '' @ et @
                       ''), location, target audience, and purpose for the event on '' @
                       sd @ ''. It is a '' @ ty @ '' event at '' @ loc @ ''. '' @ ms @
                       '' Additionally, draft a professional and concise email invitation content.''
                  else ''Using the theme: '' @ [QUOTE] @ theme @ [QUOTE] @
                       '', provide a detailed descriptive agenda with timings (from '' @
                       st @ '' to '' @ et @
                       ''), location, target audience, and purpose for the event from '' @
                       sd @ '' to '' @ ed @ ''. It is a '' @ ty @ '' event at '' @ loc @
                       ''. '' @ ms @
                       '' Split the agenda across both days. Additionally, draft a professional email invitation.'')"
    by (simp add: wprompt_def workflow_single_day_prompt_def workflow_multi_day_prompt_def
        split_instruction_def)
  from ms pl p r wl w s show ?thesis by blast
qed

lemma extract_content_echo:
  "prompt \<noteq> [] \<Longrightarrow> extract_content (echo_completion cfg prompt) = Inr prompt"
  by (simp add: echo_completion_def extract_content_def dict_getitem_def dict_get_def)

lemma strip_unchanged:
  "\<not> is_space x \<Longrightarrow> \<not> is_space y \<Longrightarrow> strip (x # m @ [y]) = x # m @ [y]"
  using strip_core [of "[]" "[]" x y m] by simp

text \<open>
  The balance instruction holds the letter \<open>k\<close>; the fixed text of the single-day
  template does not. So a single-day prompt built from inputs without that letter does
  not hold the instruction, while every multi-day prompt does.
\<close>

lemma balance_instruction_needs_k:
  "CHR ''k'' \<notin> set s \<Longrightarrow> \<not> sublist balance_instruction s"
proof
  assume k: "CHR ''k'' \<notin> set s" and "sublist balance_instruction s"
  from \<open>sublist balance_instruction s\<close> have "set balance_instruction \<subseteq> set s"
    by (rule set_mono_sublist)
  moreover have "CHR ''k'' \<in> set balance_instruction" by (simp add: balance_instruction_def)
  ultimately show False using k by blast
qed

lemma single_day_prompt_lacks_balance_instruction:
  assumes "CHR ''k'' \<notin> set (selected_theme inp) \<union> set (start_time inp) \<union> set (end_time inp)
             \<union> set (start_date inp) \<union> set (event_type inp) \<union> set (location inp) \<union> set mods"
  shows "\<not> sublist balance_instruction (single_day_prompt inp mods)"
  using assms by (intro balance_instruction_needs_k) (simp add: single_day_prompt_def QUOTE_def)

lemma multi_day_prompt_has_balance_instruction:
  "sublist balance_instruction (multi_day_prompt inp mods)"
  unfolding multi_day_prompt_def
  by (simp add: sublist_append sublist_Cons_right del: append_Cons)

text \<open>
  The theorem at work, both branches of both functions, with a completion service that
  answers with the prompt it receives: the plan returned is the prompt that was sent.
  The single-day prompt does not hold the balance instruction.
\<close>

theorem plan_prompt_selected_by_date_equality_witness:
  "refine_plan echo_completion default_settings sample_plan_input
     = Inr ''Using the theme: 'Paddle Summit', provide a detailed descriptive agenda with timings (from 11:00 AM to 5:00 PM), location, target audience, and purpose for the event from 24-01-2025 to 25-01-2025. It is a Technical Conference event at HYDERABAD. The moderators for this event are: Jai Kumar from Hyderabad with expertise in events. Please make sure to split the agenda across both days (24-01-2025 and 25-01-2025), showing a balanced distribution of sessions, breaks, and networking events for both days. Additionally, draft a professional and concise email invitation content that includes the event title, date range, daily timings, location, and a brief overview to invite participants.''
   \<and> refine_plan echo_completion default_settings single_day_plan_input
     = Inr ''Using the theme: 'Paddle Summit', provide a detailed descriptive agenda with timings (from 11:00 AM to 5:00 PM), location, target audience, and purpose for the event on 24-01-2025. It is a Technical Conference event at HYDERABAD. No specific moderators provided. Additionally, draft a professional and concise email invitation content that includes the event title, date, time, location, and a brief overview to invite participants.''
   \<and> start_event_planning echo_completion default_settings ''Paddle Summit''
       sample_event_details (moderators sample_plan_input)
     = Inr ''Using the theme: 'Paddle Summit', provide a detailed descriptive agenda with timings (from 11:00 AM to 5:00 PM), location, target audience, and purpose for the event on 24-01-2025. It is a Technical Conference event at HYDERABAD. The moderators for this event are: Jai Kumar from Hyderabad with expertise in events. Additionally, draft a professional and concise email invitation content.''
   \<and> start_event_planning echo_completion default_settings ''Paddle Summit''
       two_day_event_details (moderators single_day_plan_input)
     = Inr ''Using the theme: 'Paddle Summit', provide a detailed descriptive agenda with timings (from 11:00 AM to 5:00 PM), location, target audience, and purpose for the event from 24-01-2025 to 25-01-2025. It is a Technical Conference event at HYDERABAD. No specific moderators provided. Split the agenda across both days. Additionally, draft a professional email invitation.''
   \<and> \<not> sublist balance_instruction
       ''Using the theme: 'Paddle Summit', provide a detailed descriptive agenda with timings (from 11:00 AM to 5:00 PM), location, target audience, and purpose for the event on 24-01-2025. It is a Technical Conference event at HYDERABAD. No specific moderators provided. Additionally, draft a professional and concise email invitation content that includes the event title, date, time, location, and a brief overview to invite participants.''"
proof -
  have mods: "\<forall>m\<in>set (moderators sample_plan_input).
                map_of m ''name'' \<noteq> None \<and> map_of m ''city'' \<noteq> None"
    by (simp add: sample_plan_input_def)
  have mods0: "\<forall>m\<in>set (moderators single_day_plan_input).
                map_of m ''name'' \<noteq> None \<and> map_of m ''city'' \<noteq> None"
    by (simp add: single_day_plan_input_def)
  have ms: "moderators_str (moderators sample_plan_input)
              = Inr ''The moderators for this event are: Jai Kumar from Hyderabad with expertise in events.''"
    by (simp add: sample_plan_input_def moderators_str_def moderator_description_def
        dict_getitem_def dict_get_default_def)
  have ms0: "moderators_str (moderators single_day_plan_input)
              = Inr ''No specific moderators provided.''"
    by (simp add: single_day_plan_input_def moderators_str_def)
  have keys: "map_of sample_event_details ''start_date'' = Some ''24-01-2025''"
    "map_of sample_event_details ''end_date'' = Some ''24-01-2025''"
    "map_of sample_event_details ''start_time'' = Some ''11:00 AM''"
    "map_of sample_event_details ''end_time'' = Some ''5:00 PM''"
    "map_of sample_event_details ''event_type'' = Some ''Technical Conference''"
    "map_of sample_event_details ''location'' = Some ''HYDERABAD''"
    by (simp_all add: sample_event_details_def)
  have keys2: "map_of two_day_event_details ''start_date'' = Some ''24-01-2025''"
    "map_of two_day_event_details ''end_date'' = Some ''25-01-2025''"
    "map_of two_day_event_details ''start_time'' = Some ''11:00 AM''"
    "map_of two_day_event_details ''end_time'' = Some ''5:00 PM''"
    "map_of two_day_event_details ''event_type'' = Some ''Technical Conference''"
    "map_of two_day_event_details ''location'' = Some ''HYDERABAD''"
    by (simp_all add: two_day_event_details_def)
  have f1: "selected_theme sample_plan_input = ''Paddle Summit''"
    "start_date sample_plan_input = ''24-01-2025''" "end_date sample_plan_input = ''25-01-2025''"
    "start_time sample_plan_input = ''11:00 AM''" "end_time sample_plan_input = ''5:00 PM''"
    "location sample_plan_input = ''HYDERABAD''"
    "event_type sample_plan_input = ''Technical Conference''"
    by (simp_all add: sample_plan_input_def)
  have f2: "selected_theme single_day_plan_input = ''Paddle Summit''"
    "start_date single_day_plan_input = ''24-01-2025''"
    "end_date single_day_plan_input = ''24-01-2025''"
    "start_time single_day_plan_input = ''11:00 AM''" "end_time single_day_plan_input = ''5:00 PM''"
    "location single_day_plan_input = ''HYDERABAD''"
    "event_type single_day_plan_input = ''Technical Conference''"
    by (simp_all add: single_day_plan_input_def)
  have s1: "strip ''Using the theme: 'Paddle Summit', provide a detailed descriptive agenda with timings (from 11:00 AM to 5:00 PM), location, target audience, and purpose for the event from 24-01-2025 to 25-01-2025. It is a Technical Conference event at HYDERABAD. The moderators for this event are: Jai Kumar from Hyderabad with expertise in events. Please make sure to split the agenda across both days (24-01-2025 and 25-01-2025), showing a balanced distribution of sessions, breaks, and networking events for both days. Additionally, draft a professional and concise email invitation content that includes the event title, date range, daily timings, location, and a brief overview to invite participants.''
              = ''Using the theme: 'Paddle Summit', provide a detailed descriptive agenda with timings (from 11:00 AM to 5:00 PM), location, target audience, and purpose for the event from 24-01-2025 to 25-01-2025. It is a Technical Conference event at HYDERABAD. The moderators for this event are: Jai Kumar from Hyderabad with expertise in events. Please make sure to split the agenda across both days (24-01-2025 and 25-01-2025), showing a balanced distribution of sessions, breaks, and networking events for both days. Additionally, draft a professional and concise email invitation content that includes the event title, date range, daily timings, location, and a brief overview to invite participants.''"
    using strip_unchanged [of "CHR ''U''" "CHR ''.''"
        "''sing the theme: 'Paddle Summit', provide a detailed descriptive agenda with timings (from 11:00 AM to 5:00 PM), location, target audience, and purpose for the event from 24-01-2025 to 25-01-2025. It is a Technical Conference event at HYDERABAD. The moderators for this event are: Jai Kumar from Hyderabad with expertise in events. Please make sure to split the agenda across both days (24-01-2025 and 25-01-2025), showing a balanced distribution of sessions, breaks, and networking events for both days. Additionally, draft a professional and concise email invitation content that includes the event title, date range, daily timings, location, and a brief overview to invite participants''"]
    by (simp add: is_space_def)
  have s2: "strip ''Using the theme: 'Paddle Summit', provide a detailed descriptive agenda with timings (from 11:00 AM to 5:00 PM), location, target audience, and purpose for the event on 24-01-2025. It is a Technical Conference event at HYDERABAD. No specific moderators provided. Additionally, draft a professional and concise email invitation content that includes the event title, date, time, location, and a brief overview to invite participants.''
              = ''Using the theme: 'Paddle Summit', provide a detailed descriptive agenda with timings (from 11:00 AM to 5:00 PM), location, target audience, and purpose for the event on 24-01-2025. It is a Technical Conference event at HYDERABAD. No specific moderators provided. Additionally, draft a professional and concise email invitation content that includes the event title, date, time, location, and a brief overview to invite participants.''"
    using strip_unchanged [of "CHR ''U''" "CHR ''.''"
        "''sing the theme: 'Paddle Summit', provide a detailed descriptive agenda with timings (from 11:00 AM to 5:00 PM), location, target audience, and purpose for the event on 24-01-2025. It is a Technical Conference event at HYDERABAD. No specific moderators provided. Additionally, draft a professional and concise email invitation content that includes the event title, date, time, location, and a brief overview to invite participants''"]
    by (simp add: is_space_def)
  have s3: "strip ''Using the theme: 'Paddle Summit', provide a detailed descriptive agenda with timings (from 11:00 AM to 5:00 PM), location, target audience, and purpose for the event on 24-01-2025. It is a Technical Conference event at HYDERABAD. The moderators for this event are: Jai Kumar from Hyderabad with expertise in events. Additionally, draft a professional and concise email invitation content.''
              = ''Using the theme: 'Paddle Summit', provide a detailed descriptive agenda with timings (from 11:00 AM to 5:00 PM), location, target audience, and purpose for the event on 24-01-2025. It is a Technical Conference event at HYDERABAD. The moderators for this event are: Jai Kumar from Hyderabad with expertise in events. Additionally, draft a professional and concise email invitation content.''"
    using strip_unchanged [of "CHR ''U''" "CHR ''.''"
        "''sing the theme: 'Paddle Summit', provide a detailed descriptive agenda with timings (from 11:00 AM to 5:00 PM), location, target audience, and purpose for the event on 24-01-2025. It is a Technical Conference event at HYDERABAD. The moderators for this event are: Jai Kumar from Hyderabad with expertise in events. Additionally, draft a professional and concise email invitation content''"]
    by (simp add: is_space_def)
  have s4: "strip ''Using the theme: 'Paddle Summit', provide a detailed descriptive agenda with timings (from 11:00 AM to 5:00 PM), location, target audience, and purpose for the event from 24-01-2025 to 25-01-2025. It is a Technical Conference event at HYDERABAD. No specific moderators provided. Split the agenda across both days. Additionally, draft a professional email invitation.''
              = ''Using the theme: 'Paddle Summit', provide a detailed descriptive agenda with timings (from 11:00 AM to 5:00 PM), location, target audience, and purpose for the event from 24-01-2025 to 25-01-2025. It is a Technical Conference event at HYDERABAD. No specific moderators provided. Split the agenda across both days. Additionally, draft a professional email invitation.''"
    using strip_unchanged [of "CHR ''U''" "CHR ''.''"
        "''sing the theme: 'Paddle Summit', provide a detailed descriptive agenda with timings (from 11:00 AM to 5:00 PM), location, target audience, and purpose for the event from 24-01-2025 to 25-01-2025. It is a Technical Conference event at HYDERABAD. No specific moderators provided. Split the agenda across both days. Additionally, draft a professional email invitation''"]
    by (simp add: is_space_def)
  have first: "refine_plan echo_completion default_settings sample_plan_input
       = Inr ''Using the theme: 'Paddle Summit', provide a detailed descriptive agenda with timings (from 11:00 AM to 5:00 PM), location, target audience, and purpose for the event from 24-01-2025 to 25-01-2025. It is a Technical Conference event at HYDERABAD. The moderators for this event are: Jai Kumar from Hyderabad with expertise in events. Please make sure to split the agenda across both days (24-01-2025 and 25-01-2025), showing a balanced distribution of sessions, breaks, and networking events for both days. Additionally, draft a professional and concise email invitation content that includes the event title, date range, daily timings, location, and a brief overview to invite participants.''"
    using plan_prompt_selected_by_date_equality [OF mods keys,
      where theme = "''Paddle Summit''" and llm = echo_completion and cfg = default_settings] ms
    by (elim exE conjE) (clarsimp simp: extract_content_echo s1 f1 QUOTE_def)
  have third: "start_event_planning echo_completion default_settings ''Paddle Summit''
       sample_event_details (moderators sample_plan_input)
       = Inr ''Using the theme: 'Paddle Summit', provide a detailed descriptive agenda with timings (from 11:00 AM to 5:00 PM), location, target audience, and purpose for the event on 24-01-2025. It is a Technical Conference event at HYDERABAD. The moderators for this event are: Jai Kumar from Hyderabad with expertise in events. Additionally, draft a professional and concise email invitation content.''"
    using plan_prompt_selected_by_date_equality [OF mods keys,
      where theme = "''Paddle Summit''" and llm = echo_completion and cfg = default_settings] ms
    by (elim exE conjE) (clarsimp simp: extract_content_echo s3 QUOTE_def)
  have second: "refine_plan echo_completion default_settings single_day_plan_input
       = Inr ''Using the theme: 'Paddle Summit', provide a detailed descriptive agenda with timings (from 11:00 AM to 5:00 PM), location, target audience, and purpose for the event on 24-01-2025. It is a Technical Conference event at HYDERABAD. No specific moderators provided. Additionally, draft a professional and concise email invitation content that includes the event title, date, time, location, and a brief overview to invite participants.''"
    using plan_prompt_selected_by_date_equality [OF mods0 keys2,
      where theme = "''Paddle Summit''" and llm = echo_completion and cfg = default_settings] ms0
    by (elim exE conjE) (clarsimp simp: extract_content_echo s2 f2 QUOTE_def)
  have fourth: "start_event_planning echo_completion default_settings ''Paddle Summit''
       two_day_event_details (moderators single_day_plan_input)
       = Inr ''Using the theme: 'Paddle Summit', provide a detailed descriptive agenda with timings (from 11:00 AM to 5:00 PM), location, target audience, and purpose for the event from 24-01-2025 to 25-01-2025. It is a Technical Conference event at HYDERABAD. No specific moderators provided. Split the agenda across both days. Additionally, draft a professional email invitation.''"
    using plan_prompt_selected_by_date_equality [OF mods0 keys2,
      where theme = "''Paddle Summit''" and llm = echo_completion and cfg = default_settings] ms0
    by (elim exE conjE) (clarsimp simp: extract_content_echo s4 QUOTE_def)
  have "CHR ''k'' \<notin> set ''Using the theme: 'Paddle Summit', provide a detailed descriptive agenda with timings (from 11:00 AM to 5:00 PM), location, target audience, and purpose for the event on 24-01-2025. It is a Technical Conference event at HYDERABAD. No specific moderators provided. Additionally, draft a professional and concise email invitation content that includes the event title, date, time, location, and a brief overview to invite participants.''"
    by simp
  then have fifth: "\<not> sublist balance_instruction
       ''Using the theme: 'Paddle Summit', provide a detailed descriptive agenda with timings (from 11:00 AM to 5:00 PM), location, target audience, and purpose for the event on 24-01-2025. It is a Technical Conference event at HYDERABAD. No specific moderators provided. Additionally, draft a professional and concise email invitation content that includes the event title, date, time, location, and a brief overview to invite participants.''"
    by (rule balance_instruction_needs_k)
  from first second third fourth fifth show ?thesis by blast
qed

end
